theory Spec2Isabelle
  imports
    Main
    "HOL-Library.Char_ord"
    "HOL-Library.List_Lexorder"
    "HOL-Library.Multiset"
    "HOL-Library.Sublist"
begin

section \<open>JavaScript values used by the library\<close>

text \<open>
  A JavaScript string is a sequence of UTF-16 code units. A \<^typ>\<open>char\<close> stands for the
  code unit of the same number, so the strings modelled are those over code units below
  256. On them \<open>===\<close> is equality of lists and the default comparison of
  \<open>Array.prototype.sort\<close> (code unit by code unit, a proper prefix first) is the
  lexicographic order of \<^typ>\<open>string\<close>.

  A plain object is the list of its own properties in creation order, every key once.
  JSON values are those \<open>JSON.parse\<close> can build; a number written without fraction and
  exponent is an integer, any other number keeps its text.
\<close>

datatype json =
    JNull
  | JBool bool
  | JNum int
  | JFrac string
  | JStr string
  | JArr "json list"
  | JObj "(string \<times> json) list"

definition is_digit :: "char \<Rightarrow> bool" where
  "is_digit c \<longleftrightarrow> CHR ''0'' \<le> c \<and> c \<le> CHR ''9''"

definition digit_val :: "char \<Rightarrow> nat" where
  "digit_val c = of_char c - 48"

definition decimal_val :: "string \<Rightarrow> nat" where
  "decimal_val s = foldl (\<lambda>n c. 10 * n + digit_val c) 0 s"

text \<open>
  An array index is the canonical decimal form of an integer from 0 to \<open>2^32 - 2\<close>.
\<close>

definition is_array_index :: "string \<Rightarrow> bool" where
  "is_array_index s \<longleftrightarrow>
     s \<noteq> [] \<and> list_all is_digit s \<and> (s = ''0'' \<or> hd s \<noteq> CHR ''0'')
     \<and> decimal_val s < 4294967295"

text \<open>
  \<open>OrdinaryOwnPropertyKeys\<close>: the array indices in ascending numeric order, then the
  other string keys in creation order. \<open>Object.keys\<close>, \<open>for-in\<close> and
  \<open>JSON.stringify\<close> all enumerate an object in this order.
\<close>

definition own_order :: "(string \<times> 'a) list \<Rightarrow> (string \<times> 'a) list" where
  "own_order ps =
     sort_key (\<lambda>p. decimal_val (fst p)) (filter (\<lambda>p. is_array_index (fst p)) ps)
     @ filter (\<lambda>p. \<not> is_array_index (fst p)) ps"

definition Object_keys :: "(string \<times> 'a) list \<Rightarrow> string list" where
  "Object_keys ps = map fst (own_order ps)"

definition obj_get :: "(string \<times> 'a) list \<Rightarrow> string \<Rightarrow> 'a option" where
  "obj_get ps k = map_of ps k"

text \<open>\<open>CreateDataProperty\<close>: an existing key keeps its place, a new key goes last.\<close>

fun obj_define :: "(string \<times> 'a) list \<Rightarrow> string \<Rightarrow> 'a \<Rightarrow> (string \<times> 'a) list" where
  "obj_define [] k v = [(k, v)]"
| "obj_define ((k', v') # ps) k v =
     (if k' = k then (k, v) # ps else (k', v') # obj_define ps k v)"

text \<open>
  The assignment \<open>o[k] = v\<close> of a string \<open>v\<close> to a plain object. The key
  \<open>__proto__\<close>, when it is not an own property, reaches the setter inherited from
  \<open>Object.prototype\<close>, which ignores a value that is neither an object nor null: no
  property is created.
\<close>

definition obj_assign :: "(string \<times> string) list \<Rightarrow> string \<Rightarrow> string \<Rightarrow> (string \<times> string) list" where
  "obj_assign ps k v =
     (if k = ''__proto__'' \<and> k \<notin> fst ` set ps then ps else obj_define ps k v)"

section \<open>\<open>JSON.stringify\<close>\<close>

fun join_strings :: "string \<Rightarrow> string list \<Rightarrow> string" where
  "join_strings sep [] = []"
| "join_strings sep [x] = x"
| "join_strings sep (x # y # ys) = x @ sep @ join_strings sep (y # ys)"

text \<open>
  \<open>Number::toString\<close> on an integer: the decimal digits, most significant first, with a
  minus sign for a negative one. This is JavaScript's form for integers below \<open>10^21\<close>.
\<close>

definition digit_char :: "nat \<Rightarrow> char" where
  "digit_char d = char_of (48 + d)"

fun decimal_digits :: "nat \<Rightarrow> string \<Rightarrow> string" where
  "decimal_digits n later =
     (if n < 10 then digit_char n # later
      else decimal_digits (n div 10) (digit_char (n mod 10) # later))"

declare decimal_digits.simps [simp del]

definition nat_to_string :: "nat \<Rightarrow> string" where
  "nat_to_string n = decimal_digits n []"

definition int_to_string :: "int \<Rightarrow> string" where
  "int_to_string i = (if i < 0 then CHR ''-'' # nat_to_string (nat (- i)) else nat_to_string (nat i))"

definition hex_digit :: "nat \<Rightarrow> char" where
  "hex_digit n = (if n < 10 then char_of (48 + n) else char_of (87 + n))"

text \<open>
  \<open>QuoteJSONString\<close>: the double quote and the backslash are escaped, the control
  characters get their short escape or \<open>\u00XX\<close> in lower-case hexadecimal, every
  other code unit is copied.
\<close>

definition quote_char :: "char \<Rightarrow> string" where
  "quote_char c =
     (if c = CHR 0x08 then [CHR 0x5C, CHR ''b'']
      else if c = CHR 0x09 then [CHR 0x5C, CHR ''t'']
      else if c = CHR 0x0A then [CHR 0x5C, CHR ''n'']
      else if c = CHR 0x0C then [CHR 0x5C, CHR ''f'']
      else if c = CHR 0x0D then [CHR 0x5C, CHR ''r'']
      else if c = CHR 0x22 then [CHR 0x5C, CHR 0x22]
      else if c = CHR 0x5C then [CHR 0x5C, CHR 0x5C]
      else if (of_char c :: nat) < 32
        then [CHR 0x5C, CHR ''u'', CHR ''0'', CHR ''0'',
              hex_digit (of_char c div 16), hex_digit (of_char c mod 16)]
      else [c])"

definition QuoteJSONString :: "string \<Rightarrow> string" where
  "QuoteJSONString s = [CHR 0x22] @ concat (map quote_char s) @ [CHR 0x22]"

fun JSON_stringify :: "json \<Rightarrow> string" where
  "JSON_stringify JNull = ''null''"
| "JSON_stringify (JBool b) = (if b then ''true'' else ''false'')"
| "JSON_stringify (JNum n) = int_to_string n"
| "JSON_stringify (JFrac s) = s"
| "JSON_stringify (JStr s) = QuoteJSONString s"
| "JSON_stringify (JArr vs) = ''['' @ join_strings '','' (map JSON_stringify vs) @ '']''"
| "JSON_stringify (JObj ps) =
     ''{'' @ join_strings '',''
       (map snd (own_order
          (map (\<lambda>p. (fst p, QuoteJSONString (fst p) @ '':'' @ JSON_stringify (snd p))) ps)))
     @ ''}''"

section \<open>The signature calculator\<close>

text \<open>
  \<open>crypto.createHmac('sha256', key).update(data, 'utf8').digest('base64')\<close> is Node's
  own code: it is a parameter of every operation that signs, from the key and the data
  to the Base64 text of the HMAC-SHA256 of the UTF-8 bytes of the data.
\<close>

type_synonym crypto = "string \<Rightarrow> string \<Rightarrow> string"

record SignatureCalculator =
  signatureKey :: string

text \<open>
  The repository holds two versions of the calculator and of the client. The names that
  end in \<open>1\<close> are those of the version with one signing scheme; it gives the same
  names to its operations.
\<close>

subsection \<open>The calculator with one signing scheme\<close>

text \<open>\<open>src/utils/signatureCalculator.ts\<close>, lines 3 to 31.\<close>

definition calculateSignature1 :: "crypto \<Rightarrow> SignatureCalculator \<Rightarrow> string \<Rightarrow> string" where
  "calculateSignature1 hmac this data = hmac (signatureKey this) data"

definition verifySignature1 :: "crypto \<Rightarrow> SignatureCalculator \<Rightarrow> string \<Rightarrow> string \<Rightarrow> bool" where
  "verifySignature1 hmac this receivedSignature data =
     (let calculatedSignature = calculateSignature1 hmac this data
      in calculatedSignature = receivedSignature)"

subsection \<open>The calculator with the request scheme and the webhook scheme\<close>

text \<open>
  \<open>src/utils/signatureCalculator.ts\<close>, lines 33 to 97. First the loop
  \<open>Object.keys(o).sort().forEach(key => sorted[key] = o[key])\<close>. The keys come from
  the object itself, so the read \<open>o[key]\<close> always finds a value.
\<close>

definition sortedCopy :: "(string \<times> string) list \<Rightarrow> (string \<times> string) list" where
  "sortedCopy obj =
     foldl (\<lambda>sorted key. case obj_get obj key of
                             Some v \<Rightarrow> obj_assign sorted key v
                           | None \<Rightarrow> sorted)
       [] (sort (Object_keys obj))"

definition string_object :: "(string \<times> string) list \<Rightarrow> json" where
  "string_object ps = JObj (map (\<lambda>p. (fst p, JStr (snd p))) ps)"

text \<open>The parameters are optional: left out, they are the empty object.\<close>

definition payloadString ::
  "(string \<times> string) list \<Rightarrow> (string \<times> string) list option \<Rightarrow> string \<Rightarrow> string" where
  "payloadString headers parameters body =
     (let sortedHeaders = sortedCopy headers;
          sortedParameters = sortedCopy (case parameters of None \<Rightarrow> [] | Some ps \<Rightarrow> ps);
          payload = JObj [(''headers'', string_object sortedHeaders),
                          (''parameters'', string_object sortedParameters),
                          (''body'', JStr body)]
      in JSON_stringify payload)"

definition calculateSignature ::
  "crypto \<Rightarrow> SignatureCalculator \<Rightarrow> (string \<times> string) list
     \<Rightarrow> (string \<times> string) list option \<Rightarrow> string \<Rightarrow> string" where
  "calculateSignature hmac this headers parameters body =
     hmac (signatureKey this) (payloadString headers parameters body)"

definition calculateSignatureSimple :: "crypto \<Rightarrow> SignatureCalculator \<Rightarrow> string \<Rightarrow> string" where
  "calculateSignatureSimple hmac this data = hmac (signatureKey this) data"

definition verifySignature :: "crypto \<Rightarrow> SignatureCalculator \<Rightarrow> string \<Rightarrow> string \<Rightarrow> bool" where
  "verifySignature hmac this receivedSignature data =
     (let calculatedSignature = calculateSignatureSimple hmac this data
      in calculatedSignature = receivedSignature)"

section \<open>\<open>JSON.parse\<close>\<close>

text \<open>
  The text is cut into tokens, then a stack of open arrays and objects is run over the
  tokens. A syntax error is \<open>None\<close>. An object takes its members with
  \<open>CreateDataProperty\<close>, so a repeated key keeps its first place and its last value.
\<close>

datatype token =
    TLBrace | TRBrace | TLBrack | TRBrack | TColon | TComma
  | TValue json
  | TString string

datatype lexmode =
    Top
  | InStr string
  | InEsc string
  | InUni string "nat list"
  | InNum string
  | InWord string

type_synonym lexstate = "lexmode \<times> token list"

definition is_ws :: "char \<Rightarrow> bool" where
  "is_ws c \<longleftrightarrow> c = CHR 0x20 \<or> c = CHR 0x09 \<or> c = CHR 0x0A \<or> c = CHR 0x0D"

definition is_lower :: "char \<Rightarrow> bool" where
  "is_lower c \<longleftrightarrow> CHR ''a'' \<le> c \<and> c \<le> CHR ''z''"

definition is_num_char :: "char \<Rightarrow> bool" where
  "is_num_char c \<longleftrightarrow>
     is_digit c \<or> c = CHR ''.'' \<or> c = CHR ''e'' \<or> c = CHR ''E'' \<or> c = CHR ''+'' \<or> c = CHR ''-''"

definition hex_val :: "char \<Rightarrow> nat option" where
  "hex_val c =
     (if is_digit c then Some (of_char c - 48)
      else if CHR ''a'' \<le> c \<and> c \<le> CHR ''f'' then Some (of_char c - 87)
      else if CHR ''A'' \<le> c \<and> c \<le> CHR ''F'' then Some (of_char c - 55)
      else None)"

definition unescape :: "char \<Rightarrow> char option" where
  "unescape e =
     (if e = CHR 0x22 \<or> e = CHR 0x5C \<or> e = CHR ''/'' then Some e
      else if e = CHR ''b'' then Some (CHR 0x08)
      else if e = CHR ''f'' then Some (CHR 0x0C)
      else if e = CHR ''n'' then Some (CHR 0x0A)
      else if e = CHR ''r'' then Some (CHR 0x0D)
      else if e = CHR ''t'' then Some (CHR 0x09)
      else None)"

text \<open>
  \<open>\uXXXX\<close> names one code unit. Code units from 256 on are outside the strings
  modelled; the text is accepted all the same, and the low byte stands for the unit.
\<close>

definition unicode_unit :: "nat list \<Rightarrow> char" where
  "unicode_unit hs = char_of (foldl (\<lambda>n h. 16 * n + h) 0 hs)"

text \<open>The grammar of a number: \<open>-? (0 | [1-9][0-9]*) (. [0-9]+)? ([eE] [+-]? [0-9]+)?\<close>.\<close>

definition exponent_ok :: "string \<Rightarrow> bool" where
  "exponent_ok s =
     (case s of
        [] \<Rightarrow> True
      | c # r \<Rightarrow>
          (c = CHR ''e'' \<or> c = CHR ''E'') \<and>
          (let ds = (case r of [] \<Rightarrow> [] | g # r' \<Rightarrow> if g = CHR ''+'' \<or> g = CHR ''-'' then r' else r)
           in ds \<noteq> [] \<and> list_all is_digit ds))"

definition fraction_ok :: "string \<Rightarrow> bool" where
  "fraction_ok s =
     (case s of
        [] \<Rightarrow> True
      | c # r \<Rightarrow>
          if c = CHR ''.'' then takeWhile is_digit r \<noteq> [] \<and> exponent_ok (dropWhile is_digit r)
          else exponent_ok s)"

definition number_token :: "string \<Rightarrow> token option" where
  "number_token s =
     (let neg = (s \<noteq> [] \<and> hd s = CHR ''-'');
          body = (if neg then tl s else s);
          ds = takeWhile is_digit body;
          rest = dropWhile is_digit body
      in if ds = [] \<or> (ds \<noteq> ''0'' \<and> hd ds = CHR ''0'') \<or> \<not> fraction_ok rest then None
         else if rest = [] then Some (TValue (JNum (if neg then - int (decimal_val ds) else int (decimal_val ds))))
         else Some (TValue (JFrac s)))"

definition word_token :: "string \<Rightarrow> token option" where
  "word_token s =
     (if s = ''true'' then Some (TValue (JBool True))
      else if s = ''false'' then Some (TValue (JBool False))
      else if s = ''null'' then Some (TValue JNull)
      else None)"

text \<open>The lexer reads one character at a time; the tokens are collected newest first.\<close>

definition lex_top :: "token list \<Rightarrow> char \<Rightarrow> lexstate option" where
  "lex_top ts c =
     (if is_ws c then Some (Top, ts)
      else if c = CHR ''{'' then Some (Top, TLBrace # ts)
      else if c = CHR ''}'' then Some (Top, TRBrace # ts)
      else if c = CHR ''['' then Some (Top, TLBrack # ts)
      else if c = CHR '']'' then Some (Top, TRBrack # ts)
      else if c = CHR '':'' then Some (Top, TColon # ts)
      else if c = CHR '','' then Some (Top, TComma # ts)
      else if c = CHR 0x22 then Some (InStr [], ts)
      else if c = CHR ''-'' \<or> is_digit c then Some (InNum [c], ts)
      else if is_lower c then Some (InWord [c], ts)
      else None)"

fun lex_step :: "lexstate \<Rightarrow> char \<Rightarrow> lexstate option" where
  "lex_step (Top, ts) c = lex_top ts c"
| "lex_step (InStr acc, ts) c =
     (if c = CHR 0x22 then Some (Top, TString (rev acc) # ts)
      else if c = CHR 0x5C then Some (InEsc acc, ts)
      else if (of_char c :: nat) < 32 then None
      else Some (InStr (c # acc), ts))"
| "lex_step (InEsc acc, ts) c =
     (if c = CHR ''u'' then Some (InUni acc [], ts)
      else (case unescape c of None \<Rightarrow> None | Some x \<Rightarrow> Some (InStr (x # acc), ts)))"
| "lex_step (InUni acc hs, ts) c =
     (case hex_val c of
        None \<Rightarrow> None
      | Some h \<Rightarrow>
          if length hs = 3 then Some (InStr (unicode_unit (hs @ [h]) # acc), ts)
          else Some (InUni acc (hs @ [h]), ts))"
| "lex_step (InNum acc, ts) c =
     (if is_num_char c then Some (InNum (c # acc), ts)
      else (case number_token (rev acc) of None \<Rightarrow> None | Some t \<Rightarrow> lex_top (t # ts) c))"
| "lex_step (InWord acc, ts) c =
     (if is_lower c then Some (InWord (c # acc), ts)
      else (case word_token (rev acc) of None \<Rightarrow> None | Some t \<Rightarrow> lex_top (t # ts) c))"

fun lex_end :: "lexstate \<Rightarrow> token list option" where
  "lex_end (Top, ts) = Some (rev ts)"
| "lex_end (InNum acc, ts) = map_option (\<lambda>t. rev (t # ts)) (number_token (rev acc))"
| "lex_end (InWord acc, ts) = map_option (\<lambda>t. rev (t # ts)) (word_token (rev acc))"
| "lex_end (InStr acc, ts) = None"
| "lex_end (InEsc acc, ts) = None"
| "lex_end (InUni acc hs, ts) = None"

fun lex :: "lexstate \<Rightarrow> string \<Rightarrow> token list option" where
  "lex st [] = lex_end st"
| "lex st (c # cs) = (case lex_step st c of None \<Rightarrow> None | Some st' \<Rightarrow> lex st' cs)"

datatype frame =
    FArr "json list"
  | FObj "(string \<times> json) list"
  | FKey "(string \<times> json) list" string

datatype phase =
    WantValue | WantValueOrEnd | WantKey | WantKeyOrEnd | WantColon | WantCommaOrEnd
  | Finished json

type_synonym pstate = "phase \<times> frame list"

fun push_value :: "json \<Rightarrow> frame list \<Rightarrow> pstate option" where
  "push_value v [] = Some (Finished v, [])"
| "push_value v (FArr vs # r) = Some (WantCommaOrEnd, FArr (v # vs) # r)"
| "push_value v (FKey ms k # r) = Some (WantCommaOrEnd, FObj (obj_define ms k v) # r)"
| "push_value v (FObj ms # r) = None"

fun close_array :: "frame list \<Rightarrow> pstate option" where
  "close_array (FArr vs # r) = push_value (JArr (rev vs)) r"
| "close_array _ = None"

fun close_object :: "frame list \<Rightarrow> pstate option" where
  "close_object (FObj ms # r) = push_value (JObj ms) r"
| "close_object _ = None"

fun open_value :: "frame list \<Rightarrow> token \<Rightarrow> pstate option" where
  "open_value stk (TValue v) = push_value v stk"
| "open_value stk (TString s) = push_value (JStr s) stk"
| "open_value stk TLBrack = Some (WantValueOrEnd, FArr [] # stk)"
| "open_value stk TLBrace = Some (WantKeyOrEnd, FObj [] # stk)"
| "open_value stk _ = None"

fun open_key :: "frame list \<Rightarrow> token \<Rightarrow> pstate option" where
  "open_key (FObj ms # r) (TString k) = Some (WantColon, FKey ms k # r)"
| "open_key _ _ = None"

fun after_value :: "frame list \<Rightarrow> token \<Rightarrow> pstate option" where
  "after_value (FArr vs # r) TComma = Some (WantValue, FArr vs # r)"
| "after_value (FObj ms # r) TComma = Some (WantKey, FObj ms # r)"
| "after_value stk TRBrack = close_array stk"
| "after_value stk TRBrace = close_object stk"
| "after_value _ _ = None"

fun parse_step :: "pstate \<Rightarrow> token \<Rightarrow> pstate option" where
  "parse_step (WantValue, stk) t = open_value stk t"
| "parse_step (WantValueOrEnd, stk) t = (if t = TRBrack then close_array stk else open_value stk t)"
| "parse_step (WantKey, stk) t = open_key stk t"
| "parse_step (WantKeyOrEnd, stk) t = (if t = TRBrace then close_object stk else open_key stk t)"
| "parse_step (WantColon, stk) t = (if t = TColon then Some (WantValue, stk) else None)"
| "parse_step (WantCommaOrEnd, stk) t = after_value stk t"
| "parse_step (Finished v, stk) t = None"

fun parse_tokens :: "pstate \<Rightarrow> token list \<Rightarrow> pstate option" where
  "parse_tokens st [] = Some st"
| "parse_tokens st (t # ts) =
     (case parse_step st t of None \<Rightarrow> None | Some st' \<Rightarrow> parse_tokens st' ts)"

definition JSON_parse :: "string \<Rightarrow> json option" where
  "JSON_parse text =
     (case lex (Top, []) text of
        None \<Rightarrow> None
      | Some ts \<Rightarrow>
          (case parse_tokens (WantValue, []) ts of
             Some (Finished v, []) \<Rightarrow> Some v
           | _ \<Rightarrow> None))"

section \<open>The types of the library\<close>

datatype Environment = sandbox | production

record PaynowConfig =
  config_apiKey :: string
  config_signatureKey :: string
  config_environment :: "Environment option"

text \<open>
  A payment request is the JavaScript object the caller built; \<open>PaymentRequest\<close> is
  its static type. The fields of a response are copied from a body of type \<open>any\<close>:
  each is a JSON value, or \<open>None\<close> for \<open>undefined\<close>.
\<close>

record PaymentResponse =
  paymentId :: "json option"
  redirectUrl :: "json option"
  status :: "json option"

text \<open>
  \<open>PaynowApiError\<close> and \<open>PaynowError\<close> are static types only: the body of a
  rejected call is what the provider sent, cast with \<open>as\<close> and never checked, so it
  is a JSON value like every other body.
\<close>

section \<open>The HTTP client\<close>

text \<open>
  The axios instance is Node library code. A call is a parameter: from the request sent
  to the response of a call that resolved (a 2xx status) or to the \<open>AxiosError\<close> of a
  call that was rejected.
\<close>

record AxiosInstance =
  baseURL :: string
  default_headers :: "(string \<times> string) list"
  timeout :: nat

record AxiosRequest =
  request_method :: string
  request_url :: string
  request_headers :: "(string \<times> string) list"
  request_data :: "json option"

record AxiosResponse =
  response_status :: nat
  response_data :: json

record ErrorResponse =
  error_status :: nat
  error_data :: "json option"

record AxiosError =
  axios_response :: "ErrorResponse option"
  axios_code :: "string option"
  axios_message :: string

type_synonym axios = "AxiosRequest \<Rightarrow> AxiosError + AxiosResponse"

text \<open>
  The errors the library throws, and what a \<open>catch\<close> can receive: the error of axios,
  or any other exception. A \<open>TypeError\<close> is raised by the engine; its message is not
  modelled.
\<close>

datatype js_error = Error string | TypeError

datatype thrown = AxiosThrown AxiosError | Thrown js_error

text \<open>
  Reading a property with \<open>v.k\<close>: \<open>null\<close> has no properties and the read throws; an
  object gives its own property; any other value has none of the properties the library
  reads (\<open>paymentId\<close>, \<open>redirectUrl\<close>, \<open>status\<close>, \<open>errors\<close>, \<open>field\<close>,
  \<open>message\<close>), and neither has \<open>Object.prototype\<close>.
\<close>

fun read_property :: "json \<Rightarrow> string \<Rightarrow> js_error + json option" where
  "read_property JNull k = Inl TypeError"
| "read_property (JObj ps) k = Inr (obj_get ps k)"
| "read_property v k = Inr None"

text \<open>Reading with \<open>v?.k\<close>: \<open>undefined\<close> and \<open>null\<close> give \<open>undefined\<close>.\<close>

fun optional_property :: "json option \<Rightarrow> string \<Rightarrow> json option" where
  "optional_property None k = None"
| "optional_property (Some (JObj ps)) k = obj_get ps k"
| "optional_property (Some v) k = None"

text \<open>
  \<open>ToBoolean\<close>: \<open>undefined\<close>, \<open>null\<close>, \<open>false\<close>, zero and the empty string are
  falsy, every array and object is truthy. A number written with a fraction or an
  exponent is zero when its digits before the exponent are all zeros.
\<close>

definition zero_text :: "string \<Rightarrow> bool" where
  "zero_text s \<longleftrightarrow>
     \<not> list_ex (\<lambda>c. CHR ''1'' \<le> c \<and> c \<le> CHR ''9'')
         (takeWhile (\<lambda>c. c \<noteq> CHR ''e'' \<and> c \<noteq> CHR ''E'') s)"

fun truthy :: "json option \<Rightarrow> bool" where
  "truthy None = False"
| "truthy (Some JNull) = False"
| "truthy (Some (JBool b)) = b"
| "truthy (Some (JNum n)) = (n \<noteq> 0)"
| "truthy (Some (JFrac s)) = (\<not> zero_text s)"
| "truthy (Some (JStr s)) = (s \<noteq> [])"
| "truthy (Some (JArr vs)) = True"
| "truthy (Some (JObj ps)) = True"

text \<open>
  \<open>ToString\<close>, as a template literal applies it; \<open>None\<close> is a \<open>TypeError\<close>. An array
  is its elements joined by commas, with nothing for \<open>null\<close>. An object is
  \<open>[object Object]\<close>, unless it has an own property \<open>toString\<close>: a JSON value is never
  a function, so the conversion finds no method that gives a primitive and throws.
\<close>

fun ToString :: "json \<Rightarrow> string option" where
  "ToString JNull = Some ''null''"
| "ToString (JBool b) = Some (if b then ''true'' else ''false'')"
| "ToString (JNum n) = Some (int_to_string n)"
| "ToString (JFrac s) = Some s"
| "ToString (JStr s) = Some s"
| "ToString (JArr vs) =
     map_option (join_strings '','')
       (those (map (\<lambda>v. if v = JNull then Some [] else ToString v) vs))"
| "ToString (JObj ps) =
     (if ''toString'' \<in> fst ` set ps then None else Some ''[object Object]'')"

definition to_text :: "json option \<Rightarrow> string option" where
  "to_text v = (case v of None \<Rightarrow> Some ''undefined'' | Some x \<Rightarrow> ToString x)"

section \<open>The Paynow client\<close>

text \<open>
  \<open>src/client/paymentClient.ts\<close> is the client of the calculator with one scheme; the
  client of the calculator with two schemes is at lines 125 to 260 of
  \<open>src/utils/signatureCalculator.ts\<close>. They differ in the signature of
  \<open>createPayment\<close> only.
\<close>

record PaynowClient =
  apiClient :: AxiosInstance
  apiKey :: string
  signatureCalculator :: SignatureCalculator
  environment :: Environment

definition new_PaynowClient :: "PaynowConfig \<Rightarrow> PaynowClient" where
  "new_PaynowClient config =
     (let env = (case config_environment config of None \<Rightarrow> sandbox | Some e \<Rightarrow> e);
          url = (if env = production then ''https://api.paynow.pl/v3''
                 else ''https://api.sandbox.paynow.pl/v3'')
      in \<lparr> apiClient = \<lparr> baseURL = url,
                         default_headers = [(''Content-Type'', ''application/json''),
                                            (''Api-Key'', config_apiKey config)],
                         timeout = 30000 \<rparr>,
           apiKey = config_apiKey config,
           signatureCalculator = \<lparr> signatureKey = config_signatureKey config \<rparr>,
           environment = env \<rparr>)"

text \<open>
  The arrow function of \<open>handleError\<close>, applied to one entry of the list:
  \<open>`${err.field ? `${err.field}: ` : ''}${err.message}`\<close>. \<open>None\<close> is a
  \<open>TypeError\<close>: the entry is \<open>null\<close>, or a value cannot be converted to a string.
\<close>

definition render_error :: "json \<Rightarrow> string option" where
  "render_error err =
     (case read_property err ''field'' of
        Inl t \<Rightarrow> None
      | Inr field \<Rightarrow>
          (case (if truthy field then map_option (\<lambda>f. f @ '': '') (to_text field) else Some []) of
             None \<Rightarrow> None
           | Some shown \<Rightarrow>
               (case read_property err ''message'' of
                  Inl t \<Rightarrow> None
                | Inr message \<Rightarrow> map_option (\<lambda>m. shown @ m) (to_text message))))"

text \<open>\<open>axiosError.response?.data\<close>, and \<open>axiosError.response?.status\<close> when truthy.\<close>

definition response_body :: "AxiosError \<Rightarrow> json option" where
  "response_body e = (case axios_response e of None \<Rightarrow> None | Some r \<Rightarrow> error_data r)"

definition response_status_code :: "AxiosError \<Rightarrow> nat option" where
  "response_status_code e =
     (case axios_response e of
        None \<Rightarrow> None
      | Some r \<Rightarrow> if error_status r = 0 then None else Some (error_status r))"

text \<open>
  \<open>handleError\<close> returns an \<open>Error\<close> (\<open>Inr\<close>) or throws (\<open>Inl\<close>). The test of
  \<open>response?.data?.errors\<close> is one of truthiness; \<open>errors.map\<close> is a function only on
  an array, and the call throws on anything else.
\<close>

fun handleError :: "thrown \<Rightarrow> js_error + js_error" where
  "handleError (AxiosThrown axiosError) =
     (let errors = optional_property (response_body axiosError) ''errors''
      in if truthy errors then
           (case errors of
              Some (JArr entries) \<Rightarrow>
                (case those (map render_error entries) of
                   None \<Rightarrow> Inl TypeError
                 | Some errorMessages \<Rightarrow>
                     Inr (Error (''Paynow API Error: '' @ join_strings '', '' errorMessages)))
            | _ \<Rightarrow> Inl TypeError)
         else
           (case response_status_code axiosError of
              Some st \<Rightarrow> Inr (Error (''Paynow API Error: HTTP '' @ nat_to_string st))
            | None \<Rightarrow>
                if axios_code axiosError = Some ''ECONNABORTED''
                then Inr (Error ''Paynow API Error: Request timeout'')
                else Inr (Error (''Paynow API Error: '' @ axios_message axiosError))))"
| "handleError (Thrown e) = Inr (Error ''Unexpected error occurred'')"

text \<open>
  \<open>catch (error) { throw this.handleError(error) }\<close>: the method throws the error
  \<open>handleError\<close> returned, or the one \<open>handleError\<close> threw.
\<close>

definition rethrow :: "thrown \<Rightarrow> js_error" where
  "rethrow t = (case handleError t of Inl raised \<Rightarrow> raised | Inr returned \<Rightarrow> returned)"

definition post_payments :: "PaynowClient \<Rightarrow> json \<Rightarrow> string \<Rightarrow> string \<Rightarrow> AxiosRequest" where
  "post_payments this paymentRequest signature idempotencyKey =
     \<lparr> request_method = ''POST'',
       request_url = baseURL (apiClient this) @ ''/payments'',
       request_headers = default_headers (apiClient this)
                         @ [(''Signature'', signature), (''Idempotency-Key'', idempotencyKey)],
       request_data = Some paymentRequest \<rparr>"

text \<open>The \<open>return\<close> of \<open>createPayment\<close>, inside its \<open>try\<close>.\<close>

definition payment_response :: "json \<Rightarrow> js_error + PaymentResponse" where
  "payment_response body =
     (case read_property body ''paymentId'' of
        Inl t \<Rightarrow> Inl (rethrow (Thrown t))
      | Inr p \<Rightarrow>
          (case read_property body ''redirectUrl'' of
             Inl t \<Rightarrow> Inl (rethrow (Thrown t))
           | Inr r \<Rightarrow>
               (case read_property body ''status'' of
                  Inl t \<Rightarrow> Inl (rethrow (Thrown t))
                | Inr s \<Rightarrow> Inr \<lparr> paymentId = p, redirectUrl = r, status = s \<rparr>)))"

text \<open>
  \<open>createPayment\<close> up to the call of axios: the request it sends. The idempotency
  key is what \<open>uuidv4()\<close> returned for this call. First the client that signs the
  serialized request alone, then the client that signs headers, parameters and body.
\<close>

definition createPayment1_request :: "crypto \<Rightarrow> string \<Rightarrow> PaynowClient \<Rightarrow> json \<Rightarrow> AxiosRequest" where
  "createPayment1_request hmac uuid this paymentRequest =
     (let idempotencyKey = uuid;
          requestData = JSON_stringify paymentRequest;
          signature = calculateSignature1 hmac (signatureCalculator this) requestData
      in post_payments this paymentRequest signature idempotencyKey)"

definition createPayment_request :: "crypto \<Rightarrow> string \<Rightarrow> PaynowClient \<Rightarrow> json \<Rightarrow> AxiosRequest" where
  "createPayment_request hmac uuid this paymentRequest =
     (let idempotencyKey = uuid;
          requestData = JSON_stringify paymentRequest;
          signatureHeaders = [(''Api-Key'', apiKey this), (''Idempotency-Key'', idempotencyKey)];
          signature = calculateSignature hmac (signatureCalculator this)
                        signatureHeaders (Some []) requestData
      in post_payments this paymentRequest signature idempotencyKey)"

text \<open>The whole call: a rejected request and an exception of the \<open>return\<close> both reach
  \<open>handleError\<close>.\<close>

definition createPayment1 ::
  "crypto \<Rightarrow> axios \<Rightarrow> string \<Rightarrow> PaynowClient \<Rightarrow> json \<Rightarrow> js_error + PaymentResponse" where
  "createPayment1 hmac http uuid this paymentRequest =
     (case http (createPayment1_request hmac uuid this paymentRequest) of
        Inl e \<Rightarrow> Inl (rethrow (AxiosThrown e))
      | Inr response \<Rightarrow> payment_response (response_data response))"

definition createPayment ::
  "crypto \<Rightarrow> axios \<Rightarrow> string \<Rightarrow> PaynowClient \<Rightarrow> json \<Rightarrow> js_error + PaymentResponse" where
  "createPayment hmac http uuid this paymentRequest =
     (case http (createPayment_request hmac uuid this paymentRequest) of
        Inl e \<Rightarrow> Inl (rethrow (AxiosThrown e))
      | Inr response \<Rightarrow> payment_response (response_data response))"

definition get_payment :: "PaynowClient \<Rightarrow> string \<Rightarrow> AxiosRequest" where
  "get_payment this pid =
     \<lparr> request_method = ''GET'',
       request_url = baseURL (apiClient this) @ ''/payments/'' @ pid,
       request_headers = default_headers (apiClient this),
       request_data = None \<rparr>"

definition getPaymentStatus :: "axios \<Rightarrow> PaynowClient \<Rightarrow> string \<Rightarrow> js_error + json" where
  "getPaymentStatus http this pid =
     (case http (get_payment this pid) of
        Inl e \<Rightarrow> Inl (rethrow (AxiosThrown e))
      | Inr response \<Rightarrow> Inr (response_data response))"

text \<open>
  The two webhook operations. Each is the same in both clients; \<open>verifyNotification\<close>
  has no \<open>throw\<close> and no call that throws on strings, so its result is always a
  returned boolean.
\<close>

definition verifyNotification ::
  "crypto \<Rightarrow> PaynowClient \<Rightarrow> string \<Rightarrow> string \<Rightarrow> js_error + bool" where
  "verifyNotification hmac this signature notificationData =
     Inr (verifySignature hmac (signatureCalculator this) signature notificationData)"

definition verifyNotification1 ::
  "crypto \<Rightarrow> PaynowClient \<Rightarrow> string \<Rightarrow> string \<Rightarrow> js_error + bool" where
  "verifyNotification1 hmac this signature notificationData =
     Inr (verifySignature1 hmac (signatureCalculator this) signature notificationData)"

definition parseNotification :: "PaynowClient \<Rightarrow> string \<Rightarrow> js_error + json" where
  "parseNotification this notificationData =
     (case JSON_parse notificationData of
        Some v \<Rightarrow> Inr v
      | None \<Rightarrow> Inl (Error ''Invalid notification data format''))"

section \<open>What the specification says, in its own words\<close>

text \<open>
  The canonical payload of the specification: the keys of each map sorted
  lexicographically, the object \<open>{headers, parameters, body}\<close> written in that order
  with no white space.
\<close>

definition canonical_member :: "string \<times> string \<Rightarrow> string" where
  "canonical_member p = QuoteJSONString (fst p) @ '':'' @ QuoteJSONString (snd p)"

definition canonical_object :: "(string \<times> string) list \<Rightarrow> string" where
  "canonical_object m = ''{'' @ join_strings '','' (map canonical_member (sort_key fst m)) @ ''}''"

definition canonical_payload ::
  "(string \<times> string) list \<Rightarrow> (string \<times> string) list \<Rightarrow> string \<Rightarrow> string" where
  "canonical_payload headers parameters body =
     ''{'' @ QuoteJSONString ''headers'' @ '':'' @ canonical_object headers
     @ '','' @ QuoteJSONString ''parameters'' @ '':'' @ canonical_object parameters
     @ '','' @ QuoteJSONString ''body'' @ '':'' @ QuoteJSONString body @ ''}''"

text \<open>
  Keys that an object keeps in the order they were written: every key once, none an array
  index, none \<open>__proto__\<close>.
\<close>

definition ordinary_keys :: "(string \<times> 'a) list \<Rightarrow> bool" where
  "ordinary_keys m \<longleftrightarrow>
     distinct (map fst m) \<and> (\<forall>p \<in> set m. \<not> is_array_index (fst p) \<and> fst p \<noteq> ''__proto__'')"

text \<open>The required fields of a notification, and the projection of a body on a field.\<close>

definition required_fields :: "string list" where
  "required_fields = [''paymentId'', ''externalId'', ''status'', ''modifiedAt'']"

definition has_required_fields :: "json \<Rightarrow> bool" where
  "has_required_fields v =
     (case v of JObj ps \<Rightarrow> list_all (\<lambda>k. obj_get ps k \<noteq> None) required_fields | _ \<Rightarrow> False)"

fun field_of :: "json \<Rightarrow> string \<Rightarrow> json option" where
  "field_of (JObj ps) k = obj_get ps k"
| "field_of v k = None"

section \<open>A concrete environment for the examples\<close>

text \<open>
  The configuration of the test suite, an endpoint mocked to answer every request the
  same way, and a signing function that can be evaluated: it writes key and data side by
  side. The theorems hold for every signing function and every endpoint; the examples
  run them on these.
\<close>

definition test_config :: PaynowConfig where
  "test_config = \<lparr> config_apiKey = ''test-api-key'',
                    config_signatureKey = ''test-signature-key'',
                    config_environment = Some sandbox \<rparr>"

definition mocked_endpoint :: "AxiosError + AxiosResponse \<Rightarrow> axios" where
  "mocked_endpoint answer request = answer"

definition sample_hmac :: crypto where
  "sample_hmac key data = key @ '':'' @ data"

text \<open>
  The request and the answers of the scenarios: a payment of 1000 for order-123; the
  rejection with status 400 and one field error, the same rejection with a text or with
  a list holding \<open>null\<close> where the errors should be, a rejection with status 500 and
  no body, a timeout and a network failure; a created payment with a field the library
  does not read, and a 2xx answer whose body is \<open>null\<close>.
\<close>

definition sample_request :: json where
  "sample_request = JObj [(''amount'', JNum 1000), (''externalId'', JStr ''order-123''),
                          (''description'', JStr ''Test''),
                          (''buyer'', JObj [(''email'', JStr ''user@example.com'')])]"

definition validation_error :: AxiosError where
  "validation_error =
     \<lparr> axios_response = Some \<lparr> error_status = 400,
                               error_data = Some (JObj [(''errors'', JArr
                                 [JObj [(''field'', JStr ''amount''),
                                        (''message'', JStr ''must be positive'')]])]) \<rparr>,
       axios_code = Some ''ERR_BAD_REQUEST'',
       axios_message = ''Request failed with status code 400'' \<rparr>"

definition text_errors :: AxiosError where
  "text_errors =
     \<lparr> axios_response = Some \<lparr> error_status = 400,
                               error_data = Some (JObj [(''errors'', JStr ''Bad Request'')]) \<rparr>,
       axios_code = Some ''ERR_BAD_REQUEST'',
       axios_message = ''Request failed with status code 400'' \<rparr>"

definition null_entry :: AxiosError where
  "null_entry =
     \<lparr> axios_response = Some \<lparr> error_status = 400,
                               error_data = Some (JObj [(''errors'', JArr [JNull])]) \<rparr>,
       axios_code = Some ''ERR_BAD_REQUEST'',
       axios_message = ''Request failed with status code 400'' \<rparr>"

definition server_error :: AxiosError where
  "server_error =
     \<lparr> axios_response = Some \<lparr> error_status = 500, error_data = None \<rparr>,
       axios_code = Some ''ERR_BAD_RESPONSE'',
       axios_message = ''Request failed with status code 500'' \<rparr>"

definition timeout_error :: AxiosError where
  "timeout_error =
     \<lparr> axios_response = None,
       axios_code = Some ''ECONNABORTED'',
       axios_message = ''timeout of 30000ms exceeded'' \<rparr>"

definition network_error :: AxiosError where
  "network_error =
     \<lparr> axios_response = None,
       axios_code = Some ''ERR_NETWORK'',
       axios_message = ''Network Error'' \<rparr>"

definition created_response :: AxiosResponse where
  "created_response =
     \<lparr> response_status = 201,
       response_data = JObj [(''paymentId'', JStr ''P1''),
                             (''redirectUrl'', JStr ''https://paynow.example/pay/P1''),
                             (''status'', JStr ''NEW''),
                             (''expiresAt'', JNum 1700000000)] \<rparr>"

definition null_response :: AxiosResponse where
  "null_response = \<lparr> response_status = 200, response_data = JNull \<rparr>"

section \<open>Evaluation and helper lemmas\<close>

lemmas eval_defs = payloadString_def sortedCopy_def Object_keys_def own_order_def is_array_index_def
  is_digit_def decimal_val_def digit_val_def obj_get_def obj_assign_def string_object_def
  QuoteJSONString_def quote_char_def canonical_payload_def canonical_object_def canonical_member_def

lemmas number_defs = int_to_string_def nat_to_string_def decimal_digits.simps digit_char_def
  char_of_eq_iff

lemmas parse_defs = JSON_parse_def lex_top_def is_ws_def is_digit_def is_lower_def word_token_def
  number_token_def is_num_char_def

subsection \<open>Objects and their enumeration\<close>

lemma mset_own_order: "mset (own_order ps) = mset ps"
  by (simp add: own_order_def flip: multiset_partition)

lemma mset_Object_keys: "mset (Object_keys ps) = image_mset fst (mset ps)"
  by (simp add: Object_keys_def mset_own_order)

lemma sort_Object_keys_permuted:
  assumes "mset H1 = mset H2"
  shows "sort (Object_keys H1) = sort (Object_keys H2)"
proof (rule properties_for_sort)
  show "mset (sort (Object_keys H2)) = mset (Object_keys H1)"
    using assms by (simp add: mset_Object_keys)
  show "sorted (sort (Object_keys H2))" by simp
qed

lemma obj_get_permuted:
  assumes "distinct (map fst H1)" and "mset H1 = mset H2"
  shows "obj_get H1 = obj_get H2"
proof -
  have "mset (map fst H1) = mset (map fst H2)"
    using assms(2) by simp
  then have "distinct (map fst H2)"
    using assms(1) mset_eq_imp_distinct_iff by blast
  moreover have "set H1 = set H2"
    using assms(2) by (rule mset_eq_setD)
  ultimately have "map_of H1 = map_of H2"
    using assms(1) by (simp add: map_of_inject_set)
  then show ?thesis by (simp add: obj_get_def fun_eq_iff)
qed

lemma sortedCopy_permuted:
  assumes "distinct (map fst H1)" and "mset H1 = mset H2"
  shows "sortedCopy H1 = sortedCopy H2"
  by (simp add: sortedCopy_def obj_get_permuted [OF assms] sort_Object_keys_permuted [OF assms(2)])

lemma own_order_no_index:
  assumes "\<forall>p \<in> set ps. \<not> is_array_index (fst p)"
  shows "own_order ps = ps"
proof -
  have "filter (\<lambda>p. is_array_index (fst p)) ps = []"
    using assms by (simp add: filter_empty_conv)
  moreover have "filter (\<lambda>p. \<not> is_array_index (fst p)) ps = ps"
    using assms by (simp add: filter_id_conv)
  ultimately show ?thesis by (simp add: own_order_def)
qed

lemma obj_define_fresh: "k \<notin> fst ` set ps \<Longrightarrow> obj_define ps k v = ps @ [(k, v)]"
  by (induction ps) auto

lemma copy_loop_appends:
  assumes "distinct ks" and "set ks \<inter> fst ` set acc = {}"
    and "''__proto__'' \<notin> set ks" and "set ks \<subseteq> fst ` set obj"
  shows "foldl (\<lambda>sorted key. case obj_get obj key of
                                Some v \<Rightarrow> obj_assign sorted key v
                              | None \<Rightarrow> sorted) acc ks
         = acc @ map (\<lambda>k. (k, the (map_of obj k))) ks"
  using assms
proof (induction ks arbitrary: acc)
  case Nil
  then show ?case by simp
next
  case (Cons k ks)
  from Cons.prems(4) obtain v where v: "map_of obj k = Some v"
    by (metis list.set_intros(1) subsetD domD dom_map_of_conv_image_fst)
  from Cons.prems have fresh: "k \<notin> fst ` set acc" and np: "k \<noteq> ''__proto__''"
    by auto
  have step: "obj_assign acc k v = acc @ [(k, v)]"
    using fresh np by (simp add: obj_assign_def obj_define_fresh)
  have "set ks \<inter> fst ` set (acc @ [(k, v)]) = {}"
    using Cons.prems(1,2) by auto
  with Cons.IH [of "acc @ [(k, v)]"] Cons.prems show ?case
    by (simp add: obj_get_def v step)
qed

lemma map_insort_key: "map f (insort_key f x ys) = insort (f x) (map f ys)"
  by (induction ys) auto

lemma map_sort_key: "map f (sort_key f xs) = sort (map f xs)"
  by (induction xs) (auto simp: map_insort_key)

lemma entries_of_sorted_keys:
  assumes "distinct (map fst m)"
  shows "map (\<lambda>k. (k, the (map_of m k))) (sort (map fst m)) = sort_key fst m"
proof -
  have "map (\<lambda>p. (fst p, the (map_of m (fst p)))) (sort_key fst m) = sort_key fst m"
  proof (rule map_idI)
    fix p assume "p \<in> set (sort_key fst m)"
    then have "p \<in> set m" by simp
    then have "map_of m (fst p) = Some (snd p)"
      using assms by (metis map_of_is_SomeI prod.collapse)
    then show "(fst p, the (map_of m (fst p))) = p" by simp
  qed
  then show ?thesis by (simp add: comp_def flip: map_sort_key)
qed

lemma sortedCopy_ordinary:
  assumes "ordinary_keys m"
  shows "sortedCopy m = sort_key fst m"
proof -
  from assms have d: "distinct (map fst m)"
    and ni: "\<forall>p \<in> set m. \<not> is_array_index (fst p)"
    and np: "''__proto__'' \<notin> fst ` set m"
    by (auto simp: ordinary_keys_def)
  have keys: "Object_keys m = map fst m"
    by (simp add: Object_keys_def own_order_no_index [OF ni])
  have "sortedCopy m = [] @ map (\<lambda>k. (k, the (map_of m k))) (sort (map fst m))"
    unfolding sortedCopy_def keys
    using d np by (intro copy_loop_appends) auto
  then show ?thesis by (simp add: entries_of_sorted_keys [OF d])
qed

lemma stringify_string_object:
  assumes "\<forall>p \<in> set ps. \<not> is_array_index (fst p)"
  shows "JSON_stringify (string_object ps)
         = ''{'' @ join_strings '','' (map canonical_member ps) @ ''}''"
proof -
  let ?ms = "map (\<lambda>p. (fst p, QuoteJSONString (fst p) @ '':'' @ JSON_stringify (snd p)))
               (map (\<lambda>p. (fst p, JStr (snd p))) ps)"
  have "\<forall>q \<in> set ?ms. \<not> is_array_index (fst q)"
    using assms by auto
  then have oo: "own_order ?ms = ?ms" by (rule own_order_no_index)
  have ms: "map snd ?ms = map canonical_member ps"
    by (simp add: canonical_member_def comp_def)
  have "JSON_stringify (string_object ps)
        = ''{'' @ join_strings '','' (map snd (own_order ?ms)) @ ''}''"
    unfolding string_object_def by (simp only: JSON_stringify.simps)
  then show ?thesis by (simp only: oo ms)
qed

subsection \<open>Substrings of a joined list\<close>

lemma sublist_join_strings: "x \<in> set xs \<Longrightarrow> sublist x (join_strings sep xs)"
proof (induction sep xs rule: join_strings.induct)
  case (1 sep)
  then show ?case by simp
next
  case (2 sep y)
  then show ?case by simp
next
  case (3 sep y z zs)
  show ?case
  proof (cases "x = y")
    case True
    then show ?thesis by simp
  next
    case False
    with 3 have "sublist x (join_strings sep (z # zs))" by simp
    then obtain ps ss where "join_strings sep (z # zs) = ps @ x @ ss"
      by (auto simp: sublist_def)
    then have "join_strings sep (y # z # zs) = (y @ sep @ ps) @ x @ ss"
      by simp
    then show ?thesis
      unfolding sublist_def by blast
  qed
qed

lemma sublist_prepend: "sublist x b \<Longrightarrow> sublist x (a @ b)"
proof -
  assume "sublist x b"
  then obtain ps ss where "b = ps @ x @ ss"
    by (auto simp: sublist_def)
  then have "a @ b = (a @ ps) @ x @ ss" by simp
  then show ?thesis unfolding sublist_def by blast
qed

subsection \<open>Rendering the entries of an error list\<close>

lemma render_error_null: "render_error JNull = None"
  by (simp add: render_error_def)

lemma render_error_field_message:
  assumes "obj_get ps ''field'' = Some (JStr f)" and "f \<noteq> []"
    and "obj_get ps ''message'' = Some (JStr m)"
  shows "render_error (JObj ps) = Some (f @ '': '' @ m)"
  using assms by (simp add: render_error_def to_text_def)

lemma render_error_message_alone:
  assumes "\<not> truthy (obj_get ps ''field'')" and "obj_get ps ''message'' = Some (JStr m)"
  shows "render_error (JObj ps) = Some m"
  using assms by (simp add: render_error_def to_text_def)

lemma render_error_no_message:
  assumes "obj_get ps ''field'' = Some (JStr f)" and "f \<noteq> []"
    and "obj_get ps ''message'' = None"
  shows "render_error (JObj ps) = Some (f @ '': '' @ ''undefined'')"
  using assms by (simp add: render_error_def to_text_def)

lemma those_None: "None \<in> set xs \<Longrightarrow> those xs = None"
  by (induction xs) (auto split: option.splits)

lemma those_Some_member:
  "those xs = Some ys \<Longrightarrow> Some y \<in> set xs \<Longrightarrow> y \<in> set ys"
  by (induction xs arbitrary: ys) (auto split: option.splits)

lemma null_entry_throws:
  assumes "JNull \<in> set entries"
  shows "those (map render_error entries) = None"
proof (rule those_None)
  have "render_error JNull \<in> set (map render_error entries)"
    using assms by (simp only: set_map) (rule imageI)
  then show "None \<in> set (map render_error entries)"
    by (simp only: render_error_null)
qed

lemma rendered_entry_is_shown:
  assumes "those (map render_error entries) = Some texts"
    and "entry \<in> set entries" and "render_error entry = Some text"
  shows "sublist text (''Paynow API Error: '' @ join_strings '', '' texts)"
proof -
  have "Some text \<in> set (map render_error entries)"
    using assms(2,3) by (metis imageI set_map)
  with assms(1) have "text \<in> set texts"
    by (rule those_Some_member)
  then have "sublist text (join_strings '', '' texts)"
    by (rule sublist_join_strings)
  then show ?thesis
    by (rule sublist_prepend)
qed

subsection \<open>The return of createPayment\<close>

lemma payment_response_projects:
  "body \<noteq> JNull \<Longrightarrow>
   payment_response body
     = Inr \<lparr> paymentId = field_of body ''paymentId'',
             redirectUrl = field_of body ''redirectUrl'',
             status = field_of body ''status'' \<rparr>"
  by (cases body) (simp_all add: payment_response_def)

lemma payment_response_null:
  "payment_response JNull = Inl (Error ''Unexpected error occurred'')"
  by (simp add: payment_response_def rethrow_def)

section \<open>The request signature\<close>

text \<open>
  On maps with ordinary keys the payload signed by the three-argument
  \<open>calculateSignature\<close> is the canonical payload of the specification; the empty maps are
  such maps.
\<close>

lemma payloadString_canonical:
  assumes "ordinary_keys headers" and "ordinary_keys parameters"
  shows "payloadString headers (Some parameters) body
         = canonical_payload headers parameters body"
proof -
  have h: "\<forall>p \<in> set (sort_key fst headers). \<not> is_array_index (fst p)"
    using assms(1) by (auto simp: ordinary_keys_def)
  have p: "\<forall>p \<in> set (sort_key fst parameters). \<not> is_array_index (fst p)"
    using assms(2) by (auto simp: ordinary_keys_def)
  have outer: "own_order [(''headers'', a), (''parameters'', b), (''body'', c)]
               = [(''headers'', a), (''parameters'', b), (''body'', c)]" for a b c :: string
    by (rule own_order_no_index) (simp add: is_array_index_def is_digit_def)
  show ?thesis
    by (simp add: payloadString_def sortedCopy_ordinary [OF assms(1)]
        sortedCopy_ordinary [OF assms(2)] outer canonical_payload_def canonical_object_def
        stringify_string_object [OF h] stringify_string_object [OF p])
qed

lemma payloadString_empty_maps:
  \<open>payloadString [] (Some []) body = ''{"headers":{},"parameters":{},"body":'' @ QuoteJSONString body @ ''}''
   \<and> payloadString [] None body = payloadString [] (Some []) body\<close>
  by (simp add: payloadString_def sortedCopy_def Object_keys_def own_order_def is_array_index_def
      is_digit_def string_object_def)
     (simp add: QuoteJSONString_def quote_char_def)

text \<open>
  C1. The claim: for every header map and parameter map the keys are sorted
  lexicographically and the object \<open>{headers, parameters, body}\<close> is serialized in exactly
  that order. The code at two inputs: with the header keys \<open>10\<close> and \<open>9\<close> the loop
  inserts \<open>10\<close> first, as sorted, but the object enumerates its array indices in numeric
  order and \<open>JSON.stringify\<close> writes \<open>9\<close> first; with the header key \<open>__proto__\<close> the
  assignment creates no property and the header is missing from the payload. The
  canonical payload of the specification differs in both.
\<close>

theorem payloadString_breaks_key_order:
  \<open>payloadString [(''10'', ''a''), (''9'', ''b'')] (Some []) ''x''
     = ''{"headers":{"9":"b","10":"a"},"parameters":{},"body":"x"}''
   \<and> canonical_payload [(''10'', ''a''), (''9'', ''b'')] [] ''x''
     = ''{"headers":{"10":"a","9":"b"},"parameters":{},"body":"x"}''
   \<and> sort [''9'', ''10''] = [''10'', ''9'']
   \<and> payloadString [(''__proto__'', ''a'')] (Some []) ''x''
     = ''{"headers":{},"parameters":{},"body":"x"}''
   \<and> canonical_payload [(''__proto__'', ''a'')] [] ''x''
     = ''{"headers":{"__proto__":"a"},"parameters":{},"body":"x"}''\<close>
  by (simp add: eval_defs)

text \<open>
  C4. The request signature does not depend on the order in which the headers, or the
  parameters, were written: two maps holding the same key-value pairs give the same
  signature, whatever the other map and the body.
\<close>

theorem calculateSignature_order_independent:
  assumes "distinct (map fst H1)" and "mset H1 = mset H2"
    and "distinct (map fst P1)" and "mset P1 = mset P2"
  shows "calculateSignature hmac this H1 P B = calculateSignature hmac this H2 P B
       \<and> calculateSignature hmac this H (Some P1) B = calculateSignature hmac this H (Some P2) B"
  by (simp add: calculateSignature_def payloadString_def
      sortedCopy_permuted [OF assms(1,2)] sortedCopy_permuted [OF assms(3,4)])

theorem calculateSignature_order_independent_witness:
  "distinct (map fst [(''Z-Header'', ''z''), (''A-Header'', ''a''), (''M-Header'', ''m'')])
   \<and> mset [(''Z-Header'', ''z''), (''A-Header'', ''a''), (''M-Header'', ''m'')]
       = mset [(''A-Header'', ''a''), (''M-Header'', ''m''), (''Z-Header'', ''z'')]
   \<and> distinct (map fst [(''page'', ''2''), (''limit'', ''10'')])
   \<and> mset [(''page'', ''2''), (''limit'', ''10'')] = mset [(''limit'', ''10''), (''page'', ''2'')]
   \<and> calculateSignature sample_hmac \<lparr>signatureKey = ''test-key''\<rparr>
        [(''Z-Header'', ''z''), (''A-Header'', ''a''), (''M-Header'', ''m'')] (Some []) ''{}''
     = calculateSignature sample_hmac \<lparr>signatureKey = ''test-key''\<rparr>
        [(''A-Header'', ''a''), (''M-Header'', ''m''), (''Z-Header'', ''z'')] (Some []) ''{}''
   \<and> calculateSignature sample_hmac \<lparr>signatureKey = ''test-key''\<rparr>
        [] (Some [(''page'', ''2''), (''limit'', ''10'')]) ''{}''
     = calculateSignature sample_hmac \<lparr>signatureKey = ''test-key''\<rparr>
        [] (Some [(''limit'', ''10''), (''page'', ''2'')]) ''{}''"
proof -
  have d1: "distinct (map fst [(''Z-Header'', ''z''), (''A-Header'', ''a''), (''M-Header'', ''m'')])"
    by simp
  have m1: "mset [(''Z-Header'', ''z''), (''A-Header'', ''a''), (''M-Header'', ''m'')]
       = mset [(''A-Header'', ''a''), (''M-Header'', ''m''), (''Z-Header'', ''z'')]"
    by (simp add: add_mset_commute)
  have d2: "distinct (map fst [(''page'', ''2''), (''limit'', ''10'')])"
    by simp
  have m2: "mset [(''page'', ''2''), (''limit'', ''10'')] = mset [(''limit'', ''10''), (''page'', ''2'')]"
    by (simp add: add_mset_commute)
  from calculateSignature_order_independent [OF d1 m1 d2 m2,
      of sample_hmac "\<lparr>signatureKey = ''test-key''\<rparr>" "Some []" "''{}''" "[]"]
  show ?thesis using d1 m1 d2 m2 by blast
qed

section \<open>Webhook signatures\<close>

text \<open>
  C2. For every body and every signature key, verifying the webhook signature computed for
  the body under the same key succeeds, in both calculators; the webhook signature is the
  HMAC of the body alone, with no structure around it.
\<close>

theorem webhook_signature_roundtrip:
  "verifySignature hmac this (calculateSignatureSimple hmac this B) B
   \<and> verifySignature1 hmac this (calculateSignature1 hmac this B) B
   \<and> calculateSignatureSimple hmac this B = hmac (signatureKey this) B
   \<and> calculateSignature1 hmac this B = hmac (signatureKey this) B"
  by (simp add: verifySignature_def verifySignature1_def calculateSignatureSimple_def
      calculateSignature1_def)

text \<open>
  C3. A received signature that is not exactly the signature computed for the body is
  refused: verification is the equality of the two strings and nothing else.
\<close>

theorem verifySignature_exact_equality:
  "(S \<noteq> calculateSignatureSimple hmac this B \<longrightarrow> verifySignature hmac this S B = False)
   \<and> (verifySignature hmac this S B \<longleftrightarrow> calculateSignatureSimple hmac this B = S)
   \<and> (S \<noteq> calculateSignature1 hmac this B \<longrightarrow> verifySignature1 hmac this S B = False)
   \<and> (verifySignature1 hmac this S B \<longleftrightarrow> calculateSignature1 hmac this B = S)"
  by (auto simp add: verifySignature_def verifySignature1_def)

theorem verifySignature_exact_equality_witness:
  \<open>''wrong-signature'' \<noteq> calculateSignatureSimple sample_hmac \<lparr>signatureKey = ''test-key''\<rparr>
        ''{"paymentId":"TEST-123","status":"CONFIRMED"}''
   \<and> verifySignature sample_hmac \<lparr>signatureKey = ''test-key''\<rparr> ''wrong-signature''
        ''{"paymentId":"TEST-123","status":"CONFIRMED"}'' = False
   \<and> ''wrong-signature'' \<noteq> calculateSignature1 sample_hmac \<lparr>signatureKey = ''test-key''\<rparr>
        ''{"paymentId":"TEST-123","status":"CONFIRMED"}''
   \<and> verifySignature1 sample_hmac \<lparr>signatureKey = ''test-key''\<rparr> ''wrong-signature''
        ''{"paymentId":"TEST-123","status":"CONFIRMED"}'' = False\<close>
proof -
  have a: \<open>''wrong-signature'' \<noteq> calculateSignatureSimple sample_hmac \<lparr>signatureKey = ''test-key''\<rparr>
        ''{"paymentId":"TEST-123","status":"CONFIRMED"}''\<close>
    by (simp add: calculateSignatureSimple_def sample_hmac_def)
  have b: \<open>''wrong-signature'' \<noteq> calculateSignature1 sample_hmac \<lparr>signatureKey = ''test-key''\<rparr>
        ''{"paymentId":"TEST-123","status":"CONFIRMED"}''\<close>
    by (simp add: calculateSignature1_def sample_hmac_def)
  from a b verifySignature_exact_equality
    [of "''wrong-signature''" sample_hmac "\<lparr>signatureKey = ''test-key''\<rparr>"]
  show ?thesis by blast
qed

text \<open>
  C9. \<open>verifyNotification\<close> always returns a boolean, in both clients: a signature that
  does not match is the returned value \<open>False\<close>, never an exception.
\<close>

theorem verifyNotification_returns_boolean:
  "verifyNotification hmac this S B
     = Inr (calculateSignatureSimple hmac (signatureCalculator this) B = S)
   \<and> verifyNotification1 hmac this S B
     = Inr (calculateSignature1 hmac (signatureCalculator this) B = S)"
  by (simp add: verifyNotification_def verifyNotification1_def verifySignature_def
      verifySignature1_def)

section \<open>The constructor\<close>

text \<open>
  C8. The base URL follows from the configured environment alone: production gives
  \<open>https://api.paynow.pl/v3\<close>, sandbox gives \<open>https://api.sandbox.paynow.pl/v3\<close>, and a
  configuration with no environment is a sandbox client.
\<close>

theorem base_url_from_environment:
  "baseURL (apiClient (new_PaynowClient
      \<lparr>config_apiKey = a, config_signatureKey = s, config_environment = Some production\<rparr>))
     = ''https://api.paynow.pl/v3''
   \<and> baseURL (apiClient (new_PaynowClient
      \<lparr>config_apiKey = a, config_signatureKey = s, config_environment = Some sandbox\<rparr>))
     = ''https://api.sandbox.paynow.pl/v3''
   \<and> baseURL (apiClient (new_PaynowClient
      \<lparr>config_apiKey = a, config_signatureKey = s, config_environment = None\<rparr>))
     = ''https://api.sandbox.paynow.pl/v3''
   \<and> environment (new_PaynowClient
      \<lparr>config_apiKey = a, config_signatureKey = s, config_environment = None\<rparr>) = sandbox"
  by (simp add: new_PaynowClient_def)

section \<open>Creating a payment\<close>

lemma signed_payload_of_createPayment:
  \<open>payloadString [(''Api-Key'', a), (''Idempotency-Key'', u)] (Some []) b
     = ''{"headers":{"Api-Key":'' @ QuoteJSONString a @ '',"Idempotency-Key":'' @ QuoteJSONString u
       @ ''},"parameters":{},"body":'' @ QuoteJSONString b @ ''}''\<close>
  by (simp add: payloadString_def sortedCopy_def Object_keys_def own_order_def is_array_index_def
      is_digit_def obj_get_def obj_assign_def string_object_def)
     (simp add: QuoteJSONString_def quote_char_def)

text \<open>
  C5, amended. The request of \<open>createPayment\<close> carries the idempotency key of the call
  and a signature. In the client that calls the three-argument \<open>calculateSignature\<close> the
  signature is computed over the headers \<open>Api-Key\<close> and \<open>Idempotency-Key\<close>, no
  parameters and the serialized request, that is over the payload written out below; in
  the client that calls the one-argument \<open>calculateSignature\<close> it is the HMAC of the
  serialized request alone.
\<close>

theorem createPayment_signed_request:
  \<open>createPayment_request hmac uuid this r =
     \<lparr> request_method = ''POST'',
       request_url = baseURL (apiClient this) @ ''/payments'',
       request_headers = default_headers (apiClient this)
         @ [(''Signature'',
             calculateSignature hmac (signatureCalculator this)
               [(''Api-Key'', apiKey this), (''Idempotency-Key'', uuid)] (Some [])
               (JSON_stringify r)),
            (''Idempotency-Key'', uuid)],
       request_data = Some r \<rparr>
   \<and> calculateSignature hmac (signatureCalculator this)
        [(''Api-Key'', apiKey this), (''Idempotency-Key'', uuid)] (Some []) (JSON_stringify r)
     = hmac (signatureKey (signatureCalculator this))
        (''{"headers":{"Api-Key":'' @ QuoteJSONString (apiKey this)
         @ '',"Idempotency-Key":'' @ QuoteJSONString uuid
         @ ''},"parameters":{},"body":'' @ QuoteJSONString (JSON_stringify r) @ ''}'')
   \<and> createPayment1_request hmac uuid this r =
     \<lparr> request_method = ''POST'',
       request_url = baseURL (apiClient this) @ ''/payments'',
       request_headers = default_headers (apiClient this)
         @ [(''Signature'', hmac (signatureKey (signatureCalculator this)) (JSON_stringify r)),
            (''Idempotency-Key'', uuid)],
       request_data = Some r \<rparr>
   \<and> createPayment hmac http uuid this r =
       (case http (createPayment_request hmac uuid this r) of
          Inl e \<Rightarrow> Inl (rethrow (AxiosThrown e))
        | Inr response \<Rightarrow> payment_response (response_data response))
   \<and> createPayment1 hmac http uuid this r =
       (case http (createPayment1_request hmac uuid this r) of
          Inl e \<Rightarrow> Inl (rethrow (AxiosThrown e))
        | Inr response \<Rightarrow> payment_response (response_data response))\<close>
  by (simp add: createPayment_request_def createPayment1_request_def post_payments_def
      calculateSignature1_def createPayment_def createPayment1_def calculateSignature_def
      signed_payload_of_createPayment)

text \<open>
  The first statement of C5 fails on the client that calls the one-argument
  \<open>calculateSignature\<close>: the signature it sends is not the signature of headers,
  parameters and body.
\<close>

theorem createPayment1_signs_body_alone:
  "map_of (request_headers
      (createPayment1_request sample_hmac ''uuid-1'' (new_PaynowClient test_config) sample_request))
      ''Signature''
   \<noteq> Some (calculateSignature sample_hmac (signatureCalculator (new_PaynowClient test_config))
        [(''Api-Key'', apiKey (new_PaynowClient test_config)), (''Idempotency-Key'', ''uuid-1'')]
        (Some []) (JSON_stringify sample_request))"
  by (simp add: createPayment1_request_def post_payments_def new_PaynowClient_def test_config_def
      calculateSignature1_def calculateSignature_def sample_hmac_def sample_request_def
      eval_defs number_defs)

text \<open>
  C10, amended. When the call resolves and the body of the response is not \<open>null\<close>,
  \<open>createPayment\<close> returns the three fields \<open>paymentId\<close>, \<open>redirectUrl\<close> and \<open>status\<close>
  of the body, unchanged, and nothing else of it; each is undefined where the body has no
  such field. When the body is \<open>null\<close> the read of \<open>paymentId\<close> throws and the call fails
  with \<open>Unexpected error occurred\<close>. Both clients agree.
\<close>

theorem createPayment_projects_response:
  "(http (createPayment_request hmac uuid this r) = Inr response \<longrightarrow>
      response_data response \<noteq> JNull \<longrightarrow>
      createPayment hmac http uuid this r
        = Inr \<lparr> paymentId = field_of (response_data response) ''paymentId'',
                redirectUrl = field_of (response_data response) ''redirectUrl'',
                status = field_of (response_data response) ''status'' \<rparr>)
   \<and> (http (createPayment1_request hmac uuid this r) = Inr response \<longrightarrow>
      response_data response \<noteq> JNull \<longrightarrow>
      createPayment1 hmac http uuid this r
        = Inr \<lparr> paymentId = field_of (response_data response) ''paymentId'',
                redirectUrl = field_of (response_data response) ''redirectUrl'',
                status = field_of (response_data response) ''status'' \<rparr>)
   \<and> (http (createPayment_request hmac uuid this r) = Inr response \<longrightarrow>
      response_data response = JNull \<longrightarrow>
      createPayment hmac http uuid this r = Inl (Error ''Unexpected error occurred''))
   \<and> (http (createPayment1_request hmac uuid this r) = Inr response \<longrightarrow>
      response_data response = JNull \<longrightarrow>
      createPayment1 hmac http uuid this r = Inl (Error ''Unexpected error occurred''))"
  by (simp add: createPayment_def createPayment1_def payment_response_projects
      payment_response_null)

theorem createPayment_projects_response_witness:
  "mocked_endpoint (Inr created_response)
      (createPayment_request sample_hmac ''uuid-1'' (new_PaynowClient test_config) sample_request)
     = Inr created_response
   \<and> response_data created_response \<noteq> JNull
   \<and> createPayment sample_hmac (mocked_endpoint (Inr created_response)) ''uuid-1''
        (new_PaynowClient test_config) sample_request
     = Inr \<lparr> paymentId = Some (JStr ''P1''),
             redirectUrl = Some (JStr ''https://paynow.example/pay/P1''),
             status = Some (JStr ''NEW'') \<rparr>
   \<and> createPayment1 sample_hmac (mocked_endpoint (Inr created_response)) ''uuid-1''
        (new_PaynowClient test_config) sample_request
     = Inr \<lparr> paymentId = Some (JStr ''P1''),
             redirectUrl = Some (JStr ''https://paynow.example/pay/P1''),
             status = Some (JStr ''NEW'') \<rparr>
   \<and> response_data null_response = JNull
   \<and> createPayment sample_hmac (mocked_endpoint (Inr null_response)) ''uuid-1''
        (new_PaynowClient test_config) sample_request
     = Inl (Error ''Unexpected error occurred'')
   \<and> createPayment1 sample_hmac (mocked_endpoint (Inr null_response)) ''uuid-1''
        (new_PaynowClient test_config) sample_request
     = Inl (Error ''Unexpected error occurred'')"
proof -
  let ?created = "mocked_endpoint (Inr created_response)"
  let ?empty = "mocked_endpoint (Inr null_response)"
  let ?client = "new_PaynowClient test_config"
  have h1: "?created (createPayment_request sample_hmac ''uuid-1'' ?client sample_request)
              = Inr created_response"
    by (simp add: mocked_endpoint_def)
  have h1': "?created (createPayment1_request sample_hmac ''uuid-1'' ?client sample_request)
              = Inr created_response"
    by (simp add: mocked_endpoint_def)
  have h2: "response_data created_response \<noteq> JNull"
    by (simp add: created_response_def)
  have fields: "field_of (response_data created_response) ''paymentId'' = Some (JStr ''P1'')
      \<and> field_of (response_data created_response) ''redirectUrl''
          = Some (JStr ''https://paynow.example/pay/P1'')
      \<and> field_of (response_data created_response) ''status'' = Some (JStr ''NEW'')"
    by (simp add: created_response_def obj_get_def)
  note t = createPayment_projects_response
    [of ?created sample_hmac "''uuid-1''" ?client sample_request created_response]
  have a: "createPayment sample_hmac ?created ''uuid-1'' ?client sample_request
      = Inr \<lparr> paymentId = field_of (response_data created_response) ''paymentId'',
              redirectUrl = field_of (response_data created_response) ''redirectUrl'',
              status = field_of (response_data created_response) ''status'' \<rparr>"
    using t [THEN conjunct1, rule_format, OF h1 h2] .
  have a': "createPayment1 sample_hmac ?created ''uuid-1'' ?client sample_request
      = Inr \<lparr> paymentId = field_of (response_data created_response) ''paymentId'',
              redirectUrl = field_of (response_data created_response) ''redirectUrl'',
              status = field_of (response_data created_response) ''status'' \<rparr>"
    using t [THEN conjunct2, THEN conjunct1, rule_format, OF h1' h2] .
  have g1: "?empty (createPayment_request sample_hmac ''uuid-1'' ?client sample_request)
              = Inr null_response"
    by (simp add: mocked_endpoint_def)
  have g1': "?empty (createPayment1_request sample_hmac ''uuid-1'' ?client sample_request)
              = Inr null_response"
    by (simp add: mocked_endpoint_def)
  have g2: "response_data null_response = JNull"
    by (simp add: null_response_def)
  note u = createPayment_projects_response
    [of ?empty sample_hmac "''uuid-1''" ?client sample_request null_response]
  have b: "createPayment sample_hmac ?empty ''uuid-1'' ?client sample_request
      = Inl (Error ''Unexpected error occurred'')"
    using u [THEN conjunct2, THEN conjunct2, THEN conjunct1, rule_format, OF g1 g2] .
  have b': "createPayment1 sample_hmac ?empty ''uuid-1'' ?client sample_request
      = Inl (Error ''Unexpected error occurred'')"
    using u [THEN conjunct2, THEN conjunct2, THEN conjunct2, rule_format, OF g1' g2] .
  show ?thesis
    using h1 h2 a a' fields g2 b b' by (simp only: simp_thms)
qed

text \<open>
  The first statement of C10 fails on a 2xx response whose body is \<open>null\<close>: no payment
  response is returned.
\<close>

theorem createPayment_null_body_fails:
  "mocked_endpoint (Inr null_response)
      (createPayment_request sample_hmac ''uuid-1'' (new_PaynowClient test_config) sample_request)
     = Inr null_response
   \<and> response_status null_response = 200
   \<and> createPayment sample_hmac (mocked_endpoint (Inr null_response)) ''uuid-1''
        (new_PaynowClient test_config) sample_request
     = Inl (Error ''Unexpected error occurred'')"
  by (simp add: createPayment_def mocked_endpoint_def null_response_def payment_response_null)

section \<open>Errors of the outbound calls\<close>

text \<open>
  What \<open>handleError\<close> does with the error of a rejected call. When
  \<open>response.data.errors\<close> is a list whose entries can all be rendered, the message is
  the entries joined by commas, and an entry with a field and a message is there as
  \<open>field: message\<close>. When the list holds \<open>null\<close>, or \<open>errors\<close> is truthy and not a
  list, \<open>handleError\<close> itself throws a \<open>TypeError\<close>. When \<open>errors\<close> is missing or
  falsy the message comes from the HTTP status, else it is \<open>Request timeout\<close> for the
  code \<open>ECONNABORTED\<close>, else the message of the network error. \<open>createPayment\<close> and
  \<open>getPaymentStatus\<close> throw what \<open>handleError\<close> gives.
\<close>

lemma handleError_on_error_list:
  assumes "optional_property (response_body e) ''errors'' = Some (JArr entries)"
  shows "(those (map render_error entries) = Some texts \<longrightarrow>
            handleError (AxiosThrown e)
              = Inr (Error (''Paynow API Error: '' @ join_strings '', '' texts)))
       \<and> (those (map render_error entries) = Some texts \<longrightarrow> JObj ps \<in> set entries \<longrightarrow>
            obj_get ps ''field'' = Some (JStr f) \<longrightarrow> f \<noteq> [] \<longrightarrow>
            obj_get ps ''message'' = Some (JStr m) \<longrightarrow>
            sublist (f @ '': '' @ m) (''Paynow API Error: '' @ join_strings '', '' texts))
       \<and> (JNull \<in> set entries \<longrightarrow> handleError (AxiosThrown e) = Inl TypeError)"
proof (intro conjI impI)
  assume "those (map render_error entries) = Some texts"
  then show "handleError (AxiosThrown e)
      = Inr (Error (''Paynow API Error: '' @ join_strings '', '' texts))"
    using assms by simp
next
  assume "those (map render_error entries) = Some texts" and "JObj ps \<in> set entries"
    and "obj_get ps ''field'' = Some (JStr f)" and "f \<noteq> []"
    and "obj_get ps ''message'' = Some (JStr m)"
  then show "sublist (f @ '': '' @ m) (''Paynow API Error: '' @ join_strings '', '' texts)"
    using rendered_entry_is_shown [of entries texts "JObj ps" "f @ '': '' @ m"]
      render_error_field_message [of ps f m] by blast
next
  assume "JNull \<in> set entries"
  then have "those (map render_error entries) = None"
    by (rule null_entry_throws)
  then show "handleError (AxiosThrown e) = Inl TypeError"
    using assms by simp
qed

lemma handleError_on_other_errors:
  assumes "truthy (optional_property (response_body e) ''errors'')"
    and "\<forall>entries. optional_property (response_body e) ''errors'' \<noteq> Some (JArr entries)"
  shows "handleError (AxiosThrown e) = Inl TypeError"
proof (cases "optional_property (response_body e) ''errors''")
  case None
  with assms(1) show ?thesis by simp
next
  case (Some v)
  with assms show ?thesis by (cases v) simp_all
qed

lemma handleError_without_errors:
  assumes "\<not> truthy (optional_property (response_body e) ''errors'')"
  shows "(response_status_code e = Some st \<longrightarrow>
            handleError (AxiosThrown e) = Inr (Error (''Paynow API Error: HTTP '' @ nat_to_string st)))
       \<and> (response_status_code e = None \<longrightarrow> axios_code e = Some ''ECONNABORTED'' \<longrightarrow>
            handleError (AxiosThrown e) = Inr (Error ''Paynow API Error: Request timeout''))
       \<and> (response_status_code e = None \<longrightarrow> axios_code e \<noteq> Some ''ECONNABORTED'' \<longrightarrow>
            handleError (AxiosThrown e) = Inr (Error (''Paynow API Error: '' @ axios_message e)))"
  using assms by simp

lemma rejected_calls_rethrow:
  "(http (createPayment_request hmac uuid this r) = Inl e \<longrightarrow>
      createPayment hmac http uuid this r = Inl (rethrow (AxiosThrown e)))
   \<and> (http (createPayment1_request hmac uuid this r) = Inl e \<longrightarrow>
      createPayment1 hmac http uuid this r = Inl (rethrow (AxiosThrown e)))
   \<and> (http (get_payment this pid) = Inl e \<longrightarrow>
      getPaymentStatus http this pid = Inl (rethrow (AxiosThrown e)))"
  by (simp add: createPayment_def createPayment1_def getPaymentStatus_def)

lemmas error_defs = rethrow_def response_body_def response_status_code_def render_error_def
  to_text_def obj_get_def createPayment_def createPayment1_def getPaymentStatus_def
  mocked_endpoint_def

lemma handleError_examples:
  "createPayment sample_hmac (mocked_endpoint (Inl validation_error)) ''uuid-1''
        (new_PaynowClient test_config) sample_request
     = Inl (Error ''Paynow API Error: amount: must be positive'')
   \<and> createPayment1 sample_hmac (mocked_endpoint (Inl validation_error)) ''uuid-1''
        (new_PaynowClient test_config) sample_request
     = Inl (Error ''Paynow API Error: amount: must be positive'')
   \<and> sublist ''amount: must be positive'' ''Paynow API Error: amount: must be positive''
   \<and> rethrow (AxiosThrown server_error) = Error ''Paynow API Error: HTTP 500''
   \<and> getPaymentStatus (mocked_endpoint (Inl timeout_error)) (new_PaynowClient test_config) ''P1''
     = Inl (Error ''Paynow API Error: Request timeout'')
   \<and> rethrow (AxiosThrown network_error) = Error ''Paynow API Error: Network Error''"
proof -
  have "sublist ''amount: must be positive'' (''Paynow API Error: '' @ ''amount: must be positive'')"
    by (rule sublist_append_leftI)
  then have "sublist ''amount: must be positive'' ''Paynow API Error: amount: must be positive''"
    by simp
  then show ?thesis
    by (simp add: error_defs validation_error_def server_error_def timeout_error_def
        network_error_def number_defs)
qed

text \<open>
  C6. The claim: the message of a failed call comes from the error list of the response
  when there is one, otherwise from the HTTP status, otherwise from the timeout or the
  network error. The code at two answers with status 400: when \<open>errors\<close> is the text
  \<open>Bad Request\<close>, no list is there, yet the test of \<open>errors\<close> succeeds and
  \<open>errors.map\<close> is not a function; when \<open>errors\<close> is a list holding \<open>null\<close>, the
  read of \<open>field\<close> throws. In both \<open>handleError\<close> throws a \<open>TypeError\<close> from inside the
  \<open>catch\<close>, and \<open>createPayment\<close> and \<open>getPaymentStatus\<close> fail with it instead of the
  message \<open>HTTP 400\<close>.
\<close>

theorem handleError_throws_on_malformed_errors:
  "response_status_code text_errors = Some 400
   \<and> handleError (AxiosThrown text_errors) = Inl TypeError
   \<and> createPayment sample_hmac (mocked_endpoint (Inl text_errors)) ''uuid-1''
        (new_PaynowClient test_config) sample_request
     = Inl TypeError
   \<and> createPayment1 sample_hmac (mocked_endpoint (Inl text_errors)) ''uuid-1''
        (new_PaynowClient test_config) sample_request
     = Inl TypeError
   \<and> getPaymentStatus (mocked_endpoint (Inl text_errors)) (new_PaynowClient test_config) ''P1''
     = Inl TypeError
   \<and> handleError (AxiosThrown null_entry) = Inl TypeError
   \<and> createPayment sample_hmac (mocked_endpoint (Inl null_entry)) ''uuid-1''
        (new_PaynowClient test_config) sample_request
     = Inl TypeError"
  by (simp add: error_defs text_errors_def null_entry_def)

section \<open>Parsing a notification\<close>

text \<open>
  C7, amended. \<open>parseNotification\<close> fails exactly when the text is not valid JSON, and then
  with the error \<open>Invalid notification data format\<close>; a valid text is returned as parsed,
  whatever fields it has. The text \<open>not json\<close> fails.
\<close>

theorem parseNotification_fails_on_invalid_json_only:
  "(parseNotification this s = Inl (Error ''Invalid notification data format'')
      \<longleftrightarrow> JSON_parse s = None)
   \<and> (JSON_parse s = Some v \<longrightarrow> parseNotification this s = Inr v)
   \<and> (\<forall>e. parseNotification this s = Inl e \<longrightarrow> e = Error ''Invalid notification data format'')
   \<and> parseNotification this ''not json'' = Inl (Error ''Invalid notification data format'')"
proof (intro conjI impI allI)
  show "(parseNotification this s = Inl (Error ''Invalid notification data format''))
          = (JSON_parse s = None)"
    by (cases "JSON_parse s") (simp_all add: parseNotification_def)
next
  assume "JSON_parse s = Some v"
  then show "parseNotification this s = Inr v"
    by (simp add: parseNotification_def)
next
  fix e assume "parseNotification this s = Inl e"
  then show "e = Error ''Invalid notification data format''"
    by (cases "JSON_parse s") (simp_all add: parseNotification_def)
next
  have "JSON_parse ''not json'' = None"
    by (simp add: parse_defs)
  then show "parseNotification this ''not json'' = Inl (Error ''Invalid notification data format'')"
    by (simp add: parseNotification_def)
qed

theorem parseNotification_fails_on_invalid_json_only_witness:
  \<open>JSON_parse ''{"paymentId":"TEST-123","status":"CONFIRMED"}''
     = Some (JObj [(''paymentId'', JStr ''TEST-123''), (''status'', JStr ''CONFIRMED'')])
   \<and> parseNotification (new_PaynowClient test_config)
        ''{"paymentId":"TEST-123","status":"CONFIRMED"}''
     = Inr (JObj [(''paymentId'', JStr ''TEST-123''), (''status'', JStr ''CONFIRMED'')])
   \<and> parseNotification (new_PaynowClient test_config) ''not json''
     = Inl (Error ''Invalid notification data format'')\<close>
proof -
  have p: \<open>JSON_parse ''{"paymentId":"TEST-123","status":"CONFIRMED"}''
     = Some (JObj [(''paymentId'', JStr ''TEST-123''), (''status'', JStr ''CONFIRMED'')])\<close>
    by (simp add: parse_defs)
  note t = parseNotification_fails_on_invalid_json_only
    [of "new_PaynowClient test_config" \<open>''{"paymentId":"TEST-123","status":"CONFIRMED"}''\<close>
        "JObj [(''paymentId'', JStr ''TEST-123''), (''status'', JStr ''CONFIRMED'')]"]
  have a: \<open>parseNotification (new_PaynowClient test_config)
        ''{"paymentId":"TEST-123","status":"CONFIRMED"}''
     = Inr (JObj [(''paymentId'', JStr ''TEST-123''), (''status'', JStr ''CONFIRMED'')])\<close>
    using t [THEN conjunct2, THEN conjunct1] p by (rule mp)
  have b: "parseNotification (new_PaynowClient test_config) ''not json''
     = Inl (Error ''Invalid notification data format'')"
    using t [THEN conjunct2, THEN conjunct2, THEN conjunct2] .
  from p a b show ?thesis by (intro conjI)
qed

text \<open>
  The first statement of C7 fails on the text \<open>{}\<close>: it has none of the required fields
  and is returned without an error.
\<close>

theorem parseNotification_accepts_missing_fields:
  "JSON_parse ''{}'' = Some (JObj [])
   \<and> \<not> has_required_fields (JObj [])
   \<and> parseNotification (new_PaynowClient test_config) ''{}'' = Inr (JObj [])"
  by (simp add: parseNotification_def parse_defs has_required_fields_def required_fields_def
      obj_get_def)

end
